theory Spec2Isabelle
  imports Main "HOL-Library.Word"
begin

section \<open>The ZION Lightning bridge: data model\<close>

text \<open>
  The bridge (\<^verbatim>\<open>src/bridge/main.go\<close>) pays a Lightning invoice through an LND node and
  then deducts the amount from a ZION account. Go's \<^verbatim>\<open>uint64\<close> and \<^verbatim>\<open>int64\<close> are 64-bit
  words; \<^verbatim>\<open>int64\<close> is read with \<open>sint\<close>, and the conversion \<^verbatim>\<open>uint64(x)\<close> keeps the bits.
  A Go \<^verbatim>\<open>error\<close> made by a library is the message it carries; \<^verbatim>\<open>nil\<close> is \<open>None\<close>.
\<close>

type_synonym uint64 = "64 word"
type_synonym int64 = "64 word"

definition uint64_of :: "int64 \<Rightarrow> uint64" where
  "uint64_of x = x"

text \<open>The two messages of \<^verbatim>\<open>lnrpc\<close> that \<^verbatim>\<open>PayInvoice\<close> reads, with the fields it reads.\<close>

record PayReq =
  NumSatoshis :: int64

record SendResponse =
  PaymentError :: string
  PaymentHash :: "8 word list"

record PaymentRequest =
  Invoice :: string
  ZionAddress :: string
  Amount :: uint64

text \<open>
  Every call that leaves the bridge is recorded with its arguments and its answer, oldest
  first. The record is kept by the model, not by the program: no client can change it.
\<close>

datatype call =
    Call_DecodePayReq string "string + PayReq"
  | Call_GetBalance string "string + uint64"
  | Call_SendPaymentSync string "string + SendResponse"
  | Call_SendTransaction string string uint64 "string option"

text \<open>
  The state: \<open>world\<close> is the state of the systems outside the bridge (the LND node, the
  ZION chain), of a type the bridge knows nothing about; \<open>logged\<close> holds the lines written
  with \<^verbatim>\<open>log.Printf\<close>; \<open>calls\<close> is the record of calls.
\<close>

record 'w state =
  world :: 'w
  logged :: "string list"
  calls :: "call list"

text \<open>
  \<^verbatim>\<open>lnrpc.LightningClient\<close> is an interface of a library; its two methods used by
  \<^verbatim>\<open>PayInvoice\<close> are taken as given: any function from the request and the outside world to
  an answer (\<open>Inl\<close> the error of the transport) and a new outside world.
\<close>

record 'w LightningClient =
  DecodePayReq :: "string \<Rightarrow> 'w \<Rightarrow> (string + PayReq) \<times> 'w"
  SendPaymentSync :: "string \<Rightarrow> 'w \<Rightarrow> (string + SendResponse) \<times> 'w"

text \<open>
  \<^verbatim>\<open>ZionRPCClient\<close> with its method set. A method runs inside the bridge: it may talk to
  the chain and write to the log, so it takes and returns the outside world and the log.
  \<open>NewZionRPCClient\<close> below is the only constructor of the repository.
\<close>

record 'w ZionRPCClient =
  baseURL :: string
  GetBalance :: "string \<Rightarrow> 'w \<times> string list \<Rightarrow> (string + uint64) \<times> 'w \<times> string list"
  SendTransaction ::
    "string \<Rightarrow> string \<Rightarrow> uint64 \<Rightarrow> 'w \<times> string list \<Rightarrow> string option \<times> 'w \<times> string list"

record 'w ZionLightningBridge =
  lndClient :: "'w LightningClient"
  zionRPC :: "'w ZionRPCClient"

section \<open>Formatting\<close>

text \<open>\<^verbatim>\<open>%d\<close> of \<^verbatim>\<open>fmt\<close>: decimal, with a minus sign for a negative \<^verbatim>\<open>int64\<close>.\<close>

fun decimal :: "nat \<Rightarrow> string" where
  "decimal n =
     (if n < 10 then [''0123456789'' ! n]
      else decimal (n div 10) @ [''0123456789'' ! (n mod 10)])"

declare decimal.simps [simp del]

definition fmt_uint64 :: "uint64 \<Rightarrow> string" where
  "fmt_uint64 x = decimal (unat x)"

definition fmt_int64 :: "int64 \<Rightarrow> string" where
  "fmt_int64 x = (if sint x < 0 then ''-'' @ decimal (nat (- sint x)) else decimal (nat (sint x)))"

text \<open>\<^verbatim>\<open>hex.EncodeToString\<close>: two lower-case digits for each byte.\<close>

fun hex_EncodeToString :: "8 word list \<Rightarrow> string" where
  "hex_EncodeToString [] = []"
| "hex_EncodeToString (b # bs) =
     (''0123456789abcdef'' ! (unat b div 16)) # (''0123456789abcdef'' ! (unat b mod 16))
       # hex_EncodeToString bs"

text \<open>The high-voltage sign of the log line and of the reply, as its three bytes in UTF-8.\<close>

definition bolt :: string where
  "bolt = [char_of (226::nat), char_of (154::nat), char_of (161::nat)]"

section \<open>The ledger client of the repository\<close>

definition log_Printf :: "string \<Rightarrow> string list \<Rightarrow> string list" where
  "log_Printf line lg = lg @ [line]"

text \<open>\<^verbatim>\<open>GetBalance\<close> (lines 97-102): the mock balance, and no error.\<close>

definition ZionRPCClient_GetBalance ::
  "string \<Rightarrow> 'w \<times> string list \<Rightarrow> (string + uint64) \<times> 'w \<times> string list" where
  "ZionRPCClient_GetBalance address wl = (Inr 1000000, wl)"

text \<open>\<^verbatim>\<open>SendTransaction\<close> (lines 104-110): one log line, and no error.\<close>

definition ZionRPCClient_SendTransaction ::
  "string \<Rightarrow> string \<Rightarrow> uint64 \<Rightarrow> 'w \<times> string list \<Rightarrow> string option \<times> 'w \<times> string list" where
  "ZionRPCClient_SendTransaction from to amount wl =
     (None, fst wl,
      log_Printf (''ZION TX: '' @ from @ '' -> '' @ to @ '': '' @ fmt_uint64 amount @ '' ZION'')
        (snd wl))"

definition NewZionRPCClient :: "string \<Rightarrow> 'w ZionRPCClient" where
  "NewZionRPCClient url =
     \<lparr>baseURL = url,
      GetBalance = ZionRPCClient_GetBalance,
      SendTransaction = ZionRPCClient_SendTransaction\<rparr>"

section \<open>PayInvoice\<close>

text \<open>The five errors \<^verbatim>\<open>PayInvoice\<close> builds with \<^verbatim>\<open>fmt.Errorf\<close>, and their messages.\<close>

datatype pay_error =
    CannotDecodeInvoice string
  | CannotGetBalance string
  | InsufficientBalance uint64 int64
  | LightningPaymentFailed string
  | PaymentFailure string

fun Error :: "pay_error \<Rightarrow> string" where
  "Error (CannotDecodeInvoice err) = ''cannot decode invoice: '' @ err"
| "Error (CannotGetBalance err) = ''cannot get ZION balance: '' @ err"
| "Error (InsufficientBalance balance sat) =
     ''insufficient ZION balance: '' @ fmt_uint64 balance @ '' < '' @ fmt_int64 sat"
| "Error (LightningPaymentFailed err) = ''lightning payment failed: '' @ err"
| "Error (PaymentFailure perr) = ''payment error: '' @ perr"

text \<open>The calls, each recorded with its answer.\<close>

definition call_DecodePayReq ::
  "'w LightningClient \<Rightarrow> string \<Rightarrow> 'w state \<Rightarrow> (string + PayReq) \<times> 'w state" where
  "call_DecodePayReq lnd invoice s =
     (case DecodePayReq lnd invoice (world s) of
        (r, w) \<Rightarrow> (r, s\<lparr>world := w, calls := calls s @ [Call_DecodePayReq invoice r]\<rparr>))"

definition call_SendPaymentSync ::
  "'w LightningClient \<Rightarrow> string \<Rightarrow> 'w state \<Rightarrow> (string + SendResponse) \<times> 'w state" where
  "call_SendPaymentSync lnd invoice s =
     (case SendPaymentSync lnd invoice (world s) of
        (r, w) \<Rightarrow> (r, s\<lparr>world := w, calls := calls s @ [Call_SendPaymentSync invoice r]\<rparr>))"

definition call_GetBalance ::
  "'w ZionRPCClient \<Rightarrow> string \<Rightarrow> 'w state \<Rightarrow> (string + uint64) \<times> 'w state" where
  "call_GetBalance zrc address s =
     (case GetBalance zrc address (world s, logged s) of
        (r, w, lg) \<Rightarrow>
          (r, s\<lparr>world := w, logged := lg, calls := calls s @ [Call_GetBalance address r]\<rparr>))"

definition call_SendTransaction ::
  "'w ZionRPCClient \<Rightarrow> string \<Rightarrow> string \<Rightarrow> uint64 \<Rightarrow> 'w state \<Rightarrow> string option \<times> 'w state"
  where
  "call_SendTransaction zrc from to amount s =
     (case SendTransaction zrc from to amount (world s, logged s) of
        (r, w, lg) \<Rightarrow>
          (r, s\<lparr>world := w, logged := lg,
                calls := calls s @ [Call_SendTransaction from to amount r]\<rparr>))"

text \<open>
  \<^verbatim>\<open>PayInvoice\<close> (lines 262-303), branch by branch: decode, balance, comparison, payment,
  payment error, deduction (a failure is logged and nothing else), success line, \<^verbatim>\<open>nil\<close>.
\<close>

definition PayInvoice ::
  "'w ZionLightningBridge \<Rightarrow> string \<Rightarrow> string \<Rightarrow> 'w state \<Rightarrow> pay_error option \<times> 'w state"
  where
  "PayInvoice zlb invoice zionAddress s =
     (case call_DecodePayReq (lndClient zlb) invoice s of
        (Inl err, s1) \<Rightarrow> (Some (CannotDecodeInvoice err), s1)
      | (Inr payReq, s1) \<Rightarrow>
     (case call_GetBalance (zionRPC zlb) zionAddress s1 of
        (Inl err, s2) \<Rightarrow> (Some (CannotGetBalance err), s2)
      | (Inr balance, s2) \<Rightarrow>
     if balance < uint64_of (NumSatoshis payReq)
     then (Some (InsufficientBalance balance (NumSatoshis payReq)), s2)
     else
     (case call_SendPaymentSync (lndClient zlb) invoice s2 of
        (Inl err, s3) \<Rightarrow> (Some (LightningPaymentFailed err), s3)
      | (Inr payment, s3) \<Rightarrow>
     if PaymentError payment \<noteq> ''''
     then (Some (PaymentFailure (PaymentError payment)), s3)
     else
     (case call_SendTransaction (zionRPC zlb) zionAddress ''lightning_pool_address''
             (uint64_of (NumSatoshis payReq)) s3 of
        (err, s4) \<Rightarrow>
          (None,
           s4\<lparr>logged :=
                log_Printf (bolt @ '' Lightning payment successful: ''
                              @ hex_EncodeToString (PaymentHash payment))
                  (case err of
                     Some e \<Rightarrow>
                       log_Printf
                         (''Warning: Lightning payment succeeded but ZION deduction failed: '' @ e)
                         (logged s4)
                   | None \<Rightarrow> logged s4)\<rparr>)))))"

section \<open>The handler of POST /api/v1/pay\<close>

text \<open>
  \<^verbatim>\<open>handlePayInvoice\<close> (lines 353-372). The request body has been bound by gin:
  \<open>Inl\<close> is the binding error, \<open>Inr\<close> the request. The reply is the status code and the
  JSON object, a \<^verbatim>\<open>gin.H\<close>: a map from field names to texts.
\<close>

record reply =
  status :: nat
  body :: "string \<rightharpoonup> string"

definition handlePayInvoice ::
  "'w ZionLightningBridge \<Rightarrow> string + PaymentRequest \<Rightarrow> 'w state \<Rightarrow> reply \<times> 'w state" where
  "handlePayInvoice zlb bound s =
     (case bound of
        Inl err \<Rightarrow> (\<lparr>status = 400, body = [''error'' \<mapsto> err]\<rparr>, s)
      | Inr req \<Rightarrow>
          (case PayInvoice zlb (Invoice req) (ZionAddress req) s of
             (Some err, s') \<Rightarrow> (\<lparr>status = 500, body = [''error'' \<mapsto> Error err]\<rparr>, s')
           | (None, s') \<Rightarrow>
               (\<lparr>status = 200,
                 body = [''status'' \<mapsto> ''success'',
                         ''message'' \<mapsto> ''Lightning payment completed'',
                         ''mantra'' \<mapsto>
                           bolt @ '' Jai Ram Ram Ram Sita Ram Ram Ram Hanuman! '' @ bolt]\<rparr>,
                s')))"

section \<open>Building the bridge\<close>

text \<open>
  \<^verbatim>\<open>NewZionLightningBridge\<close> (lines 131-184), after the connection to LND is set up: the
  Lightning client of that connection, and the ledger client made by \<open>NewZionRPCClient\<close>
  from the configured URL. Every bridge of the repository is built this way.
\<close>

definition NewZionLightningBridge :: "'w LightningClient \<Rightarrow> string \<Rightarrow> 'w ZionLightningBridge" where
  "NewZionLightningBridge lnd url = \<lparr>lndClient = lnd, zionRPC = NewZionRPCClient url\<rparr>"

section \<open>Reading the record of calls\<close>

text \<open>The calls issued between two states.\<close>

definition issued :: "'w state \<Rightarrow> 'w state \<Rightarrow> call list" where
  "issued s s' = drop (length (calls s)) (calls s')"

fun is_send :: "call \<Rightarrow> bool" where
  "is_send (Call_SendPaymentSync invoice r) = True"
| "is_send c = False"

fun is_transfer :: "call \<Rightarrow> bool" where
  "is_transfer (Call_SendTransaction from to amount r) = True"
| "is_transfer c = False"

text \<open>
  The Lightning payment succeeded: \<^verbatim>\<open>SendPaymentSync\<close> returned no error and an empty
  \<^verbatim>\<open>PaymentError\<close>.
\<close>

fun paid :: "call \<Rightarrow> bool" where
  "paid (Call_SendPaymentSync invoice (Inr payment)) = (PaymentError payment = '''')"
| "paid c = False"

fun is_insufficient :: "pay_error option \<Rightarrow> bool" where
  "is_insufficient (Some (InsufficientBalance balance sat)) = True"
| "is_insufficient e = False"

definition warning :: "string \<Rightarrow> string" where
  "warning e = ''Warning: Lightning payment succeeded but ZION deduction failed: '' @ e"

section \<open>Concrete nodes\<close>

text \<open>
  The outside world of the examples is the list of invoices the node has paid, oldest
  first. \<open>lnd_paying sat\<close> decodes every invoice to \<open>sat\<close> satoshis and pays it;
  \<open>lnd_undecodable\<close> rejects every invoice; \<open>lnd_unreachable sat\<close> decodes and then loses the
  connection; \<open>lnd_no_route sat\<close> decodes and answers the payment with a payment error.
\<close>

definition lnd_paying :: "int64 \<Rightarrow> string list LightningClient" where
  "lnd_paying sat =
     \<lparr>DecodePayReq = (\<lambda>invoice w. (Inr \<lparr>NumSatoshis = sat\<rparr>, w)),
      SendPaymentSync =
        (\<lambda>invoice w. (Inr \<lparr>PaymentError = '''', PaymentHash = [171, 1]\<rparr>, w @ [invoice]))\<rparr>"

definition lnd_undecodable :: "string list LightningClient" where
  "lnd_undecodable =
     \<lparr>DecodePayReq = (\<lambda>invoice w. (Inl ''invalid bech32 string'', w)),
      SendPaymentSync = (\<lambda>invoice w. (Inl ''unreachable'', w))\<rparr>"

definition lnd_unreachable :: "int64 \<Rightarrow> string list LightningClient" where
  "lnd_unreachable sat =
     \<lparr>DecodePayReq = (\<lambda>invoice w. (Inr \<lparr>NumSatoshis = sat\<rparr>, w)),
      SendPaymentSync =
        (\<lambda>invoice w.
           (Inl ''rpc error: code = Unavailable desc = connection refused'', w))\<rparr>"

definition lnd_no_route :: "int64 \<Rightarrow> string list LightningClient" where
  "lnd_no_route sat =
     \<lparr>DecodePayReq = (\<lambda>invoice w. (Inr \<lparr>NumSatoshis = sat\<rparr>, w)),
      SendPaymentSync =
        (\<lambda>invoice w. (Inr \<lparr>PaymentError = ''no_route'', PaymentHash = []\<rparr>, w))\<rparr>"

definition the_bridge :: "string list LightningClient \<Rightarrow> string list ZionLightningBridge" where
  "the_bridge lnd = NewZionLightningBridge lnd ''http://localhost:18089''"

definition s0 :: "string list state" where
  "s0 = \<lparr>world = [], logged = [], calls = []\<rparr>"

section \<open>Unfolding\<close>

lemmas pay_defs = PayInvoice_def call_DecodePayReq_def call_GetBalance_def
  call_SendPaymentSync_def call_SendTransaction_def

lemmas repo_defs = NewZionLightningBridge_def NewZionRPCClient_def
  ZionRPCClient_GetBalance_def ZionRPCClient_SendTransaction_def

lemmas example_defs = the_bridge_def lnd_paying_def lnd_undecodable_def lnd_unreachable_def
  lnd_no_route_def s0_def

lemma decimal_1000: "decimal 1000 = ''1000''"
  by code_simp

lemma decimal_1000000: "decimal 1000000 = ''1000000''"
  by (simp add: decimal.simps [of 1000000] decimal.simps [of 100000] decimal.simps [of 10000]
      decimal.simps [of 1000] decimal.simps [of 100] decimal.simps [of 10]
      decimal.simps [of "Suc 0"])

lemma fmt_million: "fmt_uint64 1000000 = ''1000000''"
  by (simp add: fmt_uint64_def decimal_1000000)

lemma fmt_minus_one: "fmt_int64 (- 1) = ''-1''"
  by (simp add: fmt_int64_def decimal.simps [of "Suc 0"])

lemma uint_eq_sint_nonneg:
  fixes n :: int64
  assumes "0 \<le> sint n"
  shows "uint n = sint n"
proof -
  have "sint n < 2 ^ (LENGTH(64) - 1)"
    using sint_less [of n] by simp
  then have "sint n < 2 ^ LENGTH(64)"
    by simp
  then have "take_bit LENGTH(64) (sint n) = sint n"
    using assms by (simp add: take_bit_int_eq_self)
  then show ?thesis
    by (simp add: uint_sint)
qed

text \<open>
  The conversion \<^verbatim>\<open>uint64(x)\<close> of a negative \<^verbatim>\<open>int64\<close> is at least \<open>2 ^ 63\<close>; so the
  comparison of line 277 holds when the amount is above the balance, and also when it is
  negative.
\<close>

lemma uint_ge_of_sint_neg:
  fixes n :: int64
  assumes "sint n < 0"
  shows "2 ^ 63 \<le> uint n"
proof -
  have lo: "- (2 ^ 63) \<le> sint n"
    using sint_ge [of n] by simp
  have "uint n = take_bit 64 (sint n)"
    using uint_sint [of n] by simp
  also have "\<dots> = (sint n + 2 ^ 64) mod 2 ^ 64"
    by (simp add: take_bit_eq_mod)
  also have "\<dots> = sint n + 2 ^ 64"
    using lo assms by (intro mod_pos_pos_trivial) simp_all
  finally show ?thesis
    using lo by simp
qed

lemma uint64_compare:
  fixes sat :: int64
  shows "(1000000 < uint64_of sat) = (1000000 < sint sat \<or> sint sat < 0)"
proof (cases "0 \<le> sint sat")
  case True
  have "(1000000 < sat) = (uint (1000000 :: int64) < uint sat)"
    by (simp add: word_less_def)
  also have "\<dots> = (1000000 < sint sat)"
    using uint_eq_sint_nonneg [OF True] by simp
  finally show ?thesis
    using True by (simp add: uint64_of_def)
next
  case False
  then have neg: "sint sat < 0"
    by simp
  have "(1000000 < sat) = (uint (1000000 :: int64) < uint sat)"
    by (simp add: word_less_def)
  also have "\<dots>"
    using uint_ge_of_sint_neg [OF neg] by simp
  finally show ?thesis
    using neg by (simp add: uint64_of_def)
qed

section \<open>The six ways through PayInvoice\<close>

text \<open>
  Whatever the clients answer, \<^verbatim>\<open>PayInvoice\<close> ends in one of six ways; each fixes the result,
  the calls issued and the log. Every property below is read off this case analysis.
\<close>

lemma PayInvoice_cases
  [case_names decode_error balance_error insufficient send_error payment_error transfer]:
  obtains
    (decode_error) err w1 where
      "DecodePayReq (lndClient zlb) invoice (world s) = (Inl err, w1)"
      "PayInvoice zlb invoice zionAddress s =
         (Some (CannotDecodeInvoice err),
          s\<lparr>world := w1, calls := calls s @ [Call_DecodePayReq invoice (Inl err)]\<rparr>)"
  | (balance_error) payReq w1 err w2 lg2 where
      "DecodePayReq (lndClient zlb) invoice (world s) = (Inr payReq, w1)"
      "GetBalance (zionRPC zlb) zionAddress (w1, logged s) = (Inl err, w2, lg2)"
      "PayInvoice zlb invoice zionAddress s =
         (Some (CannotGetBalance err),
          s\<lparr>world := w2, logged := lg2,
            calls := calls s @ [Call_DecodePayReq invoice (Inr payReq),
                                Call_GetBalance zionAddress (Inl err)]\<rparr>)"
  | (insufficient) payReq w1 balance w2 lg2 where
      "DecodePayReq (lndClient zlb) invoice (world s) = (Inr payReq, w1)"
      "GetBalance (zionRPC zlb) zionAddress (w1, logged s) = (Inr balance, w2, lg2)"
      "balance < uint64_of (NumSatoshis payReq)"
      "PayInvoice zlb invoice zionAddress s =
         (Some (InsufficientBalance balance (NumSatoshis payReq)),
          s\<lparr>world := w2, logged := lg2,
            calls := calls s @ [Call_DecodePayReq invoice (Inr payReq),
                                Call_GetBalance zionAddress (Inr balance)]\<rparr>)"
  | (send_error) payReq w1 balance w2 lg2 err w3 where
      "DecodePayReq (lndClient zlb) invoice (world s) = (Inr payReq, w1)"
      "GetBalance (zionRPC zlb) zionAddress (w1, logged s) = (Inr balance, w2, lg2)"
      "\<not> balance < uint64_of (NumSatoshis payReq)"
      "SendPaymentSync (lndClient zlb) invoice w2 = (Inl err, w3)"
      "PayInvoice zlb invoice zionAddress s =
         (Some (LightningPaymentFailed err),
          s\<lparr>world := w3, logged := lg2,
            calls := calls s @ [Call_DecodePayReq invoice (Inr payReq),
                                Call_GetBalance zionAddress (Inr balance),
                                Call_SendPaymentSync invoice (Inl err)]\<rparr>)"
  | (payment_error) payReq w1 balance w2 lg2 payment w3 where
      "DecodePayReq (lndClient zlb) invoice (world s) = (Inr payReq, w1)"
      "GetBalance (zionRPC zlb) zionAddress (w1, logged s) = (Inr balance, w2, lg2)"
      "\<not> balance < uint64_of (NumSatoshis payReq)"
      "SendPaymentSync (lndClient zlb) invoice w2 = (Inr payment, w3)"
      "PaymentError payment \<noteq> ''''"
      "PayInvoice zlb invoice zionAddress s =
         (Some (PaymentFailure (PaymentError payment)),
          s\<lparr>world := w3, logged := lg2,
            calls := calls s @ [Call_DecodePayReq invoice (Inr payReq),
                                Call_GetBalance zionAddress (Inr balance),
                                Call_SendPaymentSync invoice (Inr payment)]\<rparr>)"
  | (transfer) payReq w1 balance w2 lg2 payment w3 terr w4 lg4 where
      "DecodePayReq (lndClient zlb) invoice (world s) = (Inr payReq, w1)"
      "GetBalance (zionRPC zlb) zionAddress (w1, logged s) = (Inr balance, w2, lg2)"
      "\<not> balance < uint64_of (NumSatoshis payReq)"
      "SendPaymentSync (lndClient zlb) invoice w2 = (Inr payment, w3)"
      "PaymentError payment = ''''"
      "SendTransaction (zionRPC zlb) zionAddress ''lightning_pool_address''
         (uint64_of (NumSatoshis payReq)) (w3, lg2) = (terr, w4, lg4)"
      "PayInvoice zlb invoice zionAddress s =
         (None,
          s\<lparr>world := w4,
            logged := (case terr of Some e \<Rightarrow> lg4 @ [warning e] | None \<Rightarrow> lg4)
                        @ [bolt @ '' Lightning payment successful: ''
                             @ hex_EncodeToString (PaymentHash payment)],
            calls := calls s @ [Call_DecodePayReq invoice (Inr payReq),
                                Call_GetBalance zionAddress (Inr balance),
                                Call_SendPaymentSync invoice (Inr payment),
                                Call_SendTransaction zionAddress ''lightning_pool_address''
                                  (uint64_of (NumSatoshis payReq)) terr]\<rparr>)"
  by atomize_elim
    (auto simp: pay_defs warning_def log_Printf_def
          split: prod.splits sum.splits option.splits if_splits)

section \<open>The two legs of a payment\<close>

text \<open>
  C1: the claim is that it is never the outcome of the pay operation that the Lightning
  payment succeeded while the deduction was not applied to the ZION ledger. The code does
  not keep it. \<^verbatim>\<open>SendTransaction\<close> is documented as sending a ZION transaction and is called
  under the comment \<^verbatim>\<open>Deduct from ZION balance\<close>, but its body only writes a log line. On a
  bridge of the repository, when the node has paid the invoice of 1000 satoshis,
  \<^verbatim>\<open>PayInvoice\<close> returns \<^verbatim>\<open>nil\<close>, the log line is all there is of the deduction, and the
  balance of the account reads 1000000 before the payment and 1000000 after it.
\<close>

theorem ledger_untouched_after_payment:
  "fst (PayInvoice (the_bridge (lnd_paying 1000)) ''lnbc10u1'' ''Z1'' s0) = None
   \<and> world (snd (PayInvoice (the_bridge (lnd_paying 1000)) ''lnbc10u1'' ''Z1'' s0))
       = [''lnbc10u1'']
   \<and> logged (snd (PayInvoice (the_bridge (lnd_paying 1000)) ''lnbc10u1'' ''Z1'' s0))
       = [''ZION TX: Z1 -> lightning_pool_address: 1000 ZION'',
          bolt @ '' Lightning payment successful: ab01'']
   \<and> fst (call_GetBalance (zionRPC (the_bridge (lnd_paying 1000))) ''Z1'' s0) = Inr 1000000
   \<and> fst (call_GetBalance (zionRPC (the_bridge (lnd_paying 1000))) ''Z1''
            (snd (PayInvoice (the_bridge (lnd_paying 1000)) ''lnbc10u1'' ''Z1'' s0)))
       = Inr 1000000"
  by (simp add: pay_defs repo_defs example_defs uint64_of_def log_Printf_def
      fmt_uint64_def decimal_1000)

section \<open>Repeated calls\<close>

text \<open>
  C3, as stated: across calls and retries for the same payment hash, an idempotency key
  keeps the Lightning payment from being sent twice. The bridge keeps nothing between two
  calls: paying the same invoice twice sends it to the node twice, and a node that pays
  what it is sent has then paid it twice.
\<close>

theorem same_invoice_sent_twice:
  "filter is_send
     (calls (snd (PayInvoice (the_bridge (lnd_paying 1000)) ''lnbc10u1'' ''Z1''
               (snd (PayInvoice (the_bridge (lnd_paying 1000)) ''lnbc10u1'' ''Z1'' s0)))))
     = [Call_SendPaymentSync ''lnbc10u1''
          (Inr \<lparr>PaymentError = '''', PaymentHash = [171, 1]\<rparr>),
        Call_SendPaymentSync ''lnbc10u1''
          (Inr \<lparr>PaymentError = '''', PaymentHash = [171, 1]\<rparr>)]
   \<and> world (snd (PayInvoice (the_bridge (lnd_paying 1000)) ''lnbc10u1'' ''Z1''
               (snd (PayInvoice (the_bridge (lnd_paying 1000)) ''lnbc10u1'' ''Z1'' s0))))
     = [''lnbc10u1'', ''lnbc10u1'']"
  by (simp add: pay_defs repo_defs example_defs uint64_of_def log_Printf_def)

text \<open>
  C3, amended: one call of the pay operation sends the Lightning payment at most once.
  There is no idempotency key: whether a call sends the payment depends on the decoded
  invoice and on the balance check alone, never on what has been sent before. It sends
  the payment once when the invoice decodes, the balance is read and is not smaller than
  the amount, and not at all otherwise.
\<close>

theorem one_send_per_call:
  "filter is_send (issued s (snd (PayInvoice zlb invoice zionAddress s)))
     = (case DecodePayReq (lndClient zlb) invoice (world s) of
          (Inl err, w1) \<Rightarrow> []
        | (Inr payReq, w1) \<Rightarrow>
            (case GetBalance (zionRPC zlb) zionAddress (w1, logged s) of
               (Inl err, w2, lg2) \<Rightarrow> []
             | (Inr balance, w2, lg2) \<Rightarrow>
                 if balance < uint64_of (NumSatoshis payReq) then []
                 else [Call_SendPaymentSync invoice
                         (fst (SendPaymentSync (lndClient zlb) invoice w2))]))
   \<and> length (filter is_send (issued s (snd (PayInvoice zlb invoice zionAddress s)))) \<le> 1"
  by (cases rule: PayInvoice_cases [of zlb invoice s zionAddress])
     (simp_all add: issued_def)

section \<open>What is checked before the payment\<close>

text \<open>
  C4, as stated: the pay operation returns an error, before any external mutation, unless
  the invoice decodes and the amount it requests equals the amount the caller supplied.
  The handler never reads the \<^verbatim>\<open>Amount\<close> of the request: a request that supplies 5 for
  an invoice of 1000 satoshis is paid, and answered with 200.
\<close>

theorem amount_mismatch_accepted:
  "status (fst (handlePayInvoice (the_bridge (lnd_paying 1000))
                  (Inr \<lparr>Invoice = ''lnbc10u1'', ZionAddress = ''Z1'', Amount = 5\<rparr>) s0))
     = 200
   \<and> body (fst (handlePayInvoice (the_bridge (lnd_paying 1000))
                  (Inr \<lparr>Invoice = ''lnbc10u1'', ZionAddress = ''Z1'', Amount = 5\<rparr>) s0))
        ''status''
     = Some ''success''
   \<and> snd (handlePayInvoice (the_bridge (lnd_paying 1000))
             (Inr \<lparr>Invoice = ''lnbc10u1'', ZionAddress = ''Z1'', Amount = 5\<rparr>) s0)
     = \<lparr>world = [''lnbc10u1''],
        logged = [''ZION TX: Z1 -> lightning_pool_address: 1000 ZION'',
                  bolt @ '' Lightning payment successful: ab01''],
        calls = [Call_DecodePayReq ''lnbc10u1'' (Inr \<lparr>NumSatoshis = 1000\<rparr>),
                 Call_GetBalance ''Z1'' (Inr 1000000),
                 Call_SendPaymentSync ''lnbc10u1''
                   (Inr \<lparr>PaymentError = '''', PaymentHash = [171, 1]\<rparr>),
                 Call_SendTransaction ''Z1'' ''lightning_pool_address'' 1000 None]\<rparr>"
  by (simp add: handlePayInvoice_def pay_defs repo_defs example_defs uint64_of_def
      log_Printf_def fmt_uint64_def decimal_1000)

text \<open>
  C4, amended: the pay operation returns an error, having issued no call but the decoding,
  unless the supplied invoice decodes successfully; the amount the caller supplies is not
  compared with the amount of the invoice: whatever it is, the outcome is the same.
\<close>

theorem amount_ignored_decode_required:
  "handlePayInvoice zlb (Inr (req\<lparr>Amount := a\<rparr>)) s = handlePayInvoice zlb (Inr req) s
   \<and> (\<forall>err. fst (DecodePayReq (lndClient zlb) (Invoice req) (world s)) = Inl err \<longrightarrow>
         fst (handlePayInvoice zlb (Inr req) s)
           = \<lparr>status = 500, body = [''error'' \<mapsto> ''cannot decode invoice: '' @ err]\<rparr>
         \<and> issued s (snd (handlePayInvoice zlb (Inr req) s))
           = [Call_DecodePayReq (Invoice req) (Inl err)])"
  by (cases rule: PayInvoice_cases [of zlb "Invoice req" s "ZionAddress req"])
     (simp_all add: handlePayInvoice_def issued_def)

theorem amount_ignored_decode_required_witness:
  "fst (DecodePayReq (lndClient (the_bridge lnd_undecodable)) ''lnbc10u1'' (world s0))
     = Inl ''invalid bech32 string''
   \<and> fst (handlePayInvoice (the_bridge lnd_undecodable)
            (Inr \<lparr>Invoice = ''lnbc10u1'', ZionAddress = ''Z1'', Amount = 1000\<rparr>) s0)
     = \<lparr>status = 500,
        body = [''error'' \<mapsto> ''cannot decode invoice: '' @ ''invalid bech32 string'']\<rparr>
   \<and> issued s0
        (snd (handlePayInvoice (the_bridge lnd_undecodable)
                (Inr \<lparr>Invoice = ''lnbc10u1'', ZionAddress = ''Z1'', Amount = 1000\<rparr>) s0))
     = [Call_DecodePayReq ''lnbc10u1'' (Inl ''invalid bech32 string'')]"
proof -
  have h: "fst (DecodePayReq (lndClient (the_bridge lnd_undecodable))
                  (Invoice \<lparr>Invoice = ''lnbc10u1'', ZionAddress = ''Z1'', Amount = 1000\<rparr>)
                  (world s0))
           = Inl ''invalid bech32 string''"
    by (simp add: example_defs repo_defs)
  show ?thesis
    using h
      amount_ignored_decode_required
        [where zlb = "the_bridge lnd_undecodable"
           and req = "\<lparr>Invoice = ''lnbc10u1'', ZionAddress = ''Z1'', Amount = 1000\<rparr>"
           and a = 1000 and s = s0]
    by simp
qed

text \<open>
  C5: whenever the balance read for the account is smaller than the amount of the decoded
  invoice, the pay operation fails with the error of insufficient balance, having issued
  the decoding and the balance query and nothing else: no Lightning payment is sent and
  no ledger transfer is made.
\<close>

theorem insufficient_balance_rejected:
  assumes "DecodePayReq (lndClient zlb) invoice (world s) = (Inr payReq, w1)"
      and "GetBalance (zionRPC zlb) zionAddress (w1, logged s) = (Inr balance, w2, lg2)"
      and "balance < uint64_of (NumSatoshis payReq)"
  shows "PayInvoice zlb invoice zionAddress s =
           (Some (InsufficientBalance balance (NumSatoshis payReq)),
            s\<lparr>world := w2, logged := lg2,
              calls := calls s @ [Call_DecodePayReq invoice (Inr payReq),
                                  Call_GetBalance zionAddress (Inr balance)]\<rparr>)
         \<and> \<not> list_ex is_send (issued s (snd (PayInvoice zlb invoice zionAddress s)))
         \<and> \<not> list_ex is_transfer (issued s (snd (PayInvoice zlb invoice zionAddress s)))
         \<and> Error (InsufficientBalance balance (NumSatoshis payReq))
             = ''insufficient ZION balance: '' @ fmt_uint64 balance @ '' < ''
                 @ fmt_int64 (NumSatoshis payReq)"
  using assms
  by (cases rule: PayInvoice_cases [of zlb invoice s zionAddress])
     (simp_all add: issued_def)

theorem insufficient_balance_rejected_witness:
  "DecodePayReq (lndClient (the_bridge (lnd_paying 2000000))) ''lnbc20m1'' (world s0)
      = (Inr \<lparr>NumSatoshis = 2000000\<rparr>, [])
   \<and> GetBalance (zionRPC (the_bridge (lnd_paying 2000000))) ''Z1'' ([], logged s0)
      = (Inr 1000000, [], [])
   \<and> (1000000 :: uint64) < uint64_of (NumSatoshis \<lparr>NumSatoshis = 2000000\<rparr>)
   \<and> PayInvoice (the_bridge (lnd_paying 2000000)) ''lnbc20m1'' ''Z1'' s0 =
        (Some (InsufficientBalance 1000000 2000000),
         \<lparr>world = [], logged = [],
          calls = [Call_DecodePayReq ''lnbc20m1'' (Inr \<lparr>NumSatoshis = 2000000\<rparr>),
                   Call_GetBalance ''Z1'' (Inr 1000000)]\<rparr>)
   \<and> \<not> list_ex is_send
          (issued s0 (snd (PayInvoice (the_bridge (lnd_paying 2000000)) ''lnbc20m1'' ''Z1'' s0)))"
proof -
  have h1: "DecodePayReq (lndClient (the_bridge (lnd_paying 2000000))) ''lnbc20m1'' (world s0)
              = (Inr \<lparr>NumSatoshis = 2000000\<rparr>, [])"
    by (simp add: example_defs repo_defs)
  have h2: "GetBalance (zionRPC (the_bridge (lnd_paying 2000000))) ''Z1'' ([], logged s0)
              = (Inr 1000000, [], [])"
    by (simp add: example_defs repo_defs)
  have h3: "(1000000 :: uint64) < uint64_of (NumSatoshis \<lparr>NumSatoshis = 2000000\<rparr>)"
    by (simp add: uint64_of_def)
  show ?thesis
    using h1 h2 h3 insufficient_balance_rejected [OF h1 h2 h3]
    by (simp add: s0_def issued_def)
qed

text \<open>
  C6: in every execution of the pay operation, a Lightning payment that is sent comes
  after the balance check of the same call: the calls issued before it are exactly the
  decoding of this invoice, which succeeded, and the balance query for this account, which
  returned a balance not smaller than the amount of the invoice.
\<close>

theorem send_after_balance_check:
  assumes "issued s (snd (PayInvoice zlb invoice zionAddress s))
             = pre @ Call_SendPaymentSync i r # post"
  shows "i = invoice \<and>
         (\<exists>payReq balance.
            pre = [Call_DecodePayReq invoice (Inr payReq),
                   Call_GetBalance zionAddress (Inr balance)]
            \<and> \<not> balance < uint64_of (NumSatoshis payReq))"
  using assms
  by (cases rule: PayInvoice_cases [of zlb invoice s zionAddress])
     (auto simp: issued_def append_eq_Cons_conv Cons_eq_append_conv)

theorem send_after_balance_check_witness:
  "issued s0 (snd (PayInvoice (the_bridge (lnd_paying 1000)) ''lnbc10u1'' ''Z1'' s0))
     = [Call_DecodePayReq ''lnbc10u1'' (Inr \<lparr>NumSatoshis = 1000\<rparr>),
        Call_GetBalance ''Z1'' (Inr 1000000)]
       @ Call_SendPaymentSync ''lnbc10u1''
           (Inr \<lparr>PaymentError = '''', PaymentHash = [171, 1]\<rparr>)
       # [Call_SendTransaction ''Z1'' ''lightning_pool_address'' 1000 None]
   \<and> (\<exists>payReq balance.
         [Call_DecodePayReq ''lnbc10u1'' (Inr \<lparr>NumSatoshis = 1000\<rparr>),
          Call_GetBalance ''Z1'' (Inr 1000000)]
           = [Call_DecodePayReq ''lnbc10u1'' (Inr payReq), Call_GetBalance ''Z1'' (Inr balance)]
         \<and> \<not> balance < uint64_of (NumSatoshis payReq))"
proof -
  have h: "issued s0 (snd (PayInvoice (the_bridge (lnd_paying 1000)) ''lnbc10u1'' ''Z1'' s0))
     = [Call_DecodePayReq ''lnbc10u1'' (Inr \<lparr>NumSatoshis = 1000\<rparr>),
        Call_GetBalance ''Z1'' (Inr 1000000)]
       @ Call_SendPaymentSync ''lnbc10u1''
           (Inr \<lparr>PaymentError = '''', PaymentHash = [171, 1]\<rparr>)
       # [Call_SendTransaction ''Z1'' ''lightning_pool_address'' 1000 None]"
    by (simp add: pay_defs repo_defs example_defs uint64_of_def log_Printf_def issued_def)
  show ?thesis
    using h send_after_balance_check [OF h] by blast
qed

section \<open>Failures\<close>

text \<open>
  C7: whenever the Lightning leg does not go through, that is, whenever no payment sent by
  the call comes back as paid, the pay operation returns an error and performs no ledger
  transfer: the invoice did not decode, or the balance could not be read, or the balance
  was too small, or the payment was sent and its transport failed, or it came back with a
  payment error; in each case the calls issued are the ones listed, and
  \<^verbatim>\<open>SendTransaction\<close> is not among them.
\<close>

theorem no_transfer_when_payment_fails:
  assumes "\<not> list_ex paid (issued s (snd (PayInvoice zlb invoice zionAddress s)))"
  shows "\<not> list_ex is_transfer (issued s (snd (PayInvoice zlb invoice zionAddress s)))
         \<and> (\<exists>e. fst (PayInvoice zlb invoice zionAddress s) = Some e
               \<and> (case e of
                     CannotDecodeInvoice err \<Rightarrow>
                       issued s (snd (PayInvoice zlb invoice zionAddress s))
                         = [Call_DecodePayReq invoice (Inl err)]
                   | CannotGetBalance err \<Rightarrow>
                       (\<exists>payReq.
                          issued s (snd (PayInvoice zlb invoice zionAddress s))
                            = [Call_DecodePayReq invoice (Inr payReq),
                               Call_GetBalance zionAddress (Inl err)])
                   | InsufficientBalance balance sat \<Rightarrow>
                       balance < uint64_of sat
                       \<and> issued s (snd (PayInvoice zlb invoice zionAddress s))
                           = [Call_DecodePayReq invoice (Inr \<lparr>NumSatoshis = sat\<rparr>),
                              Call_GetBalance zionAddress (Inr balance)]
                   | LightningPaymentFailed err \<Rightarrow>
                       (\<exists>payReq balance.
                          issued s (snd (PayInvoice zlb invoice zionAddress s))
                            = [Call_DecodePayReq invoice (Inr payReq),
                               Call_GetBalance zionAddress (Inr balance),
                               Call_SendPaymentSync invoice (Inl err)])
                   | PaymentFailure perr \<Rightarrow>
                       perr \<noteq> ''''
                       \<and> (\<exists>payReq balance payment.
                             PaymentError payment = perr
                             \<and> issued s (snd (PayInvoice zlb invoice zionAddress s))
                                 = [Call_DecodePayReq invoice (Inr payReq),
                                    Call_GetBalance zionAddress (Inr balance),
                                    Call_SendPaymentSync invoice (Inr payment)])))"
  using assms
  by (cases rule: PayInvoice_cases [of zlb invoice s zionAddress])
     (auto simp: issued_def)

theorem no_transfer_when_payment_fails_witness:
  "\<not> list_ex paid
        (issued s0 (snd (PayInvoice (the_bridge (lnd_no_route 1000)) ''lnbc10u1'' ''Z1'' s0)))
   \<and> \<not> list_ex is_transfer
        (issued s0 (snd (PayInvoice (the_bridge (lnd_no_route 1000)) ''lnbc10u1'' ''Z1'' s0)))
   \<and> fst (PayInvoice (the_bridge (lnd_no_route 1000)) ''lnbc10u1'' ''Z1'' s0)
       = Some (PaymentFailure ''no_route'')"
proof -
  have h: "\<not> list_ex paid
             (issued s0
                (snd (PayInvoice (the_bridge (lnd_no_route 1000)) ''lnbc10u1'' ''Z1'' s0)))"
    by (simp add: pay_defs repo_defs example_defs uint64_of_def issued_def)
  have r: "fst (PayInvoice (the_bridge (lnd_no_route 1000)) ''lnbc10u1'' ''Z1'' s0)
             = Some (PaymentFailure ''no_route'')"
    by (simp add: pay_defs repo_defs example_defs uint64_of_def)
  show ?thesis
    using h r no_transfer_when_payment_fails [OF h] by simp
qed

text \<open>
  C8, as stated: a failure of the pay operation reaches the caller as a kind of the error
  taxonomy with a settlement id, and never as the raw error of the transport. When the
  node cannot be reached, the reply is the status 500 with one field, \<^verbatim>\<open>error\<close>, whose
  text ends with the error of the transport, word for word.
\<close>

theorem transport_error_in_reply:
  "status (fst (handlePayInvoice (the_bridge (lnd_unreachable 1000))
                  (Inr \<lparr>Invoice = ''lnbc10u1'', ZionAddress = ''Z1'', Amount = 1000\<rparr>) s0))
     = 500
   \<and> body (fst (handlePayInvoice (the_bridge (lnd_unreachable 1000))
                  (Inr \<lparr>Invoice = ''lnbc10u1'', ZionAddress = ''Z1'', Amount = 1000\<rparr>) s0))
        ''error''
     = Some (''lightning payment failed: ''
               @ ''rpc error: code = Unavailable desc = connection refused'')
   \<and> dom (body (fst (handlePayInvoice (the_bridge (lnd_unreachable 1000))
                  (Inr \<lparr>Invoice = ''lnbc10u1'', ZionAddress = ''Z1'', Amount = 1000\<rparr>) s0)))
     = {''error''}
   \<and> snd (handlePayInvoice (the_bridge (lnd_unreachable 1000))
             (Inr \<lparr>Invoice = ''lnbc10u1'', ZionAddress = ''Z1'', Amount = 1000\<rparr>) s0)
     = \<lparr>world = [], logged = [],
        calls = [Call_DecodePayReq ''lnbc10u1'' (Inr \<lparr>NumSatoshis = 1000\<rparr>),
                 Call_GetBalance ''Z1'' (Inr 1000000),
                 Call_SendPaymentSync ''lnbc10u1''
                   (Inl ''rpc error: code = Unavailable desc = connection refused'')]\<rparr>"
  by (simp add: handlePayInvoice_def pay_defs repo_defs example_defs uint64_of_def)

text \<open>
  C8, amended: every failure of the pay operation reaches the caller as the status 500
  with the single field \<^verbatim>\<open>error\<close>, which holds the message of the error; there is no kind
  and no settlement id. When the decoding or the sending failed in the transport, the
  message is a fixed prefix followed by the raw error of the transport.
\<close>

theorem failure_reply_is_error_message:
  assumes "PayInvoice zlb (Invoice req) (ZionAddress req) s = (Some e, s')"
  shows "handlePayInvoice zlb (Inr req) s
           = (\<lparr>status = 500, body = [''error'' \<mapsto> Error e]\<rparr>, s')
         \<and> dom (body (fst (handlePayInvoice zlb (Inr req) s))) = {''error''}
         \<and> (\<forall>err. last (issued s s') = Call_DecodePayReq (Invoice req) (Inl err)
                \<longrightarrow> Error e = ''cannot decode invoice: '' @ err)
         \<and> (\<forall>err. last (issued s s') = Call_SendPaymentSync (Invoice req) (Inl err)
                \<longrightarrow> Error e = ''lightning payment failed: '' @ err)"
  using assms
  by (cases rule: PayInvoice_cases [of zlb "Invoice req" s "ZionAddress req"])
     (auto simp: handlePayInvoice_def issued_def)

theorem failure_reply_is_error_message_witness:
  "PayInvoice (the_bridge (lnd_unreachable 1000)) ''lnbc10u1'' ''Z1'' s0
     = (Some (LightningPaymentFailed
                ''rpc error: code = Unavailable desc = connection refused''),
        \<lparr>world = [], logged = [],
         calls = [Call_DecodePayReq ''lnbc10u1'' (Inr \<lparr>NumSatoshis = 1000\<rparr>),
                  Call_GetBalance ''Z1'' (Inr 1000000),
                  Call_SendPaymentSync ''lnbc10u1''
                    (Inl ''rpc error: code = Unavailable desc = connection refused'')]\<rparr>)
   \<and> fst (handlePayInvoice (the_bridge (lnd_unreachable 1000))
            (Inr \<lparr>Invoice = ''lnbc10u1'', ZionAddress = ''Z1'', Amount = 1000\<rparr>) s0)
     = \<lparr>status = 500,
        body = [''error'' \<mapsto>
                 Error (LightningPaymentFailed
                          ''rpc error: code = Unavailable desc = connection refused'')]\<rparr>
   \<and> last (issued s0
         \<lparr>world = [], logged = [],
          calls = [Call_DecodePayReq ''lnbc10u1'' (Inr \<lparr>NumSatoshis = 1000\<rparr>),
                   Call_GetBalance ''Z1'' (Inr 1000000),
                   Call_SendPaymentSync ''lnbc10u1''
                     (Inl ''rpc error: code = Unavailable desc = connection refused'')]\<rparr>)
     = Call_SendPaymentSync ''lnbc10u1''
         (Inl ''rpc error: code = Unavailable desc = connection refused'')
   \<and> Error (LightningPaymentFailed
               ''rpc error: code = Unavailable desc = connection refused'')
     = ''lightning payment failed: ''
         @ ''rpc error: code = Unavailable desc = connection refused''"
proof -
  have h: "PayInvoice (the_bridge (lnd_unreachable 1000))
             (Invoice \<lparr>Invoice = ''lnbc10u1'', ZionAddress = ''Z1'', Amount = 1000\<rparr>)
             (ZionAddress \<lparr>Invoice = ''lnbc10u1'', ZionAddress = ''Z1'', Amount = 1000\<rparr>) s0
     = (Some (LightningPaymentFailed
                ''rpc error: code = Unavailable desc = connection refused''),
        \<lparr>world = [], logged = [],
         calls = [Call_DecodePayReq ''lnbc10u1'' (Inr \<lparr>NumSatoshis = 1000\<rparr>),
                  Call_GetBalance ''Z1'' (Inr 1000000),
                  Call_SendPaymentSync ''lnbc10u1''
                    (Inl ''rpc error: code = Unavailable desc = connection refused'')]\<rparr>)"
    by (simp add: pay_defs repo_defs example_defs uint64_of_def)
  show ?thesis
    using h failure_reply_is_error_message [OF h] by (simp add: issued_def s0_def)
qed

section \<open>What the mock ledger answers\<close>

text \<open>
  C9, as stated: the rejection for insufficient balance fires exactly when the decoded
  amount of the invoice exceeds 1000000. Line 277 compares the balance with
  \<^verbatim>\<open>uint64(payReq.NumSatoshis)\<close>: a decoded amount of -1 does not exceed 1000000, and is
  rejected all the same, with the message \<^verbatim>\<open>insufficient ZION balance: 1000000 < -1\<close>.
\<close>

theorem negative_amount_rejected:
  "PayInvoice (the_bridge (lnd_paying (- 1))) ''lnbc1'' ''Z1'' s0
     = (Some (InsufficientBalance 1000000 (- 1)),
        \<lparr>world = [], logged = [],
         calls = [Call_DecodePayReq ''lnbc1'' (Inr \<lparr>NumSatoshis = - 1\<rparr>),
                  Call_GetBalance ''Z1'' (Inr 1000000)]\<rparr>)
   \<and> Error (InsufficientBalance 1000000 (- 1)) = ''insufficient ZION balance: 1000000 < -1''
   \<and> sint (NumSatoshis \<lparr>NumSatoshis = - 1\<rparr>) = - 1
   \<and> \<not> 1000000 < sint (NumSatoshis \<lparr>NumSatoshis = - 1\<rparr>)"
proof -
  have "(1000000 :: uint64) < uint64_of (- 1)"
    by (simp add: uint64_compare)
  then show ?thesis
    by (simp add: pay_defs repo_defs the_bridge_def lnd_paying_def s0_def
        fmt_million fmt_minus_one)
qed

text \<open>
  C9, amended: for every address the balance query returns 1000000 and no error. So on a
  bridge of the repository the pay operation rejects for insufficient balance exactly
  when the invoice decodes and its amount exceeds 1000000 or is negative, which is to say
  exactly when the amount read as \<^verbatim>\<open>uint64\<close> exceeds 1000000; the address makes no
  difference to the result.
\<close>

theorem rejection_above_million_or_negative:
  "ZionRPCClient_GetBalance address wl = (Inr 1000000, wl)
   \<and> is_insufficient (fst (PayInvoice (NewZionLightningBridge lnd url) invoice zionAddress s))
       = (case fst (DecodePayReq lnd invoice (world s)) of
            Inl err \<Rightarrow> False
          | Inr payReq \<Rightarrow>
              1000000 < sint (NumSatoshis payReq) \<or> sint (NumSatoshis payReq) < 0)
   \<and> is_insufficient (fst (PayInvoice (NewZionLightningBridge lnd url) invoice zionAddress s))
       = (case fst (DecodePayReq lnd invoice (world s)) of
            Inl err \<Rightarrow> False
          | Inr payReq \<Rightarrow> 1000000 < uint64_of (NumSatoshis payReq))
   \<and> fst (PayInvoice (NewZionLightningBridge lnd url) invoice other s)
       = fst (PayInvoice (NewZionLightningBridge lnd url) invoice zionAddress s)"
proof -
  have balance: "ZionRPCClient_GetBalance address wl = (Inr 1000000, wl)"
    by (simp add: ZionRPCClient_GetBalance_def)
  have unsigned:
    "is_insufficient (fst (PayInvoice (NewZionLightningBridge lnd url) invoice zionAddress s))
       = (case fst (DecodePayReq lnd invoice (world s)) of
            Inl err \<Rightarrow> False
          | Inr payReq \<Rightarrow> 1000000 < uint64_of (NumSatoshis payReq))"
    by (cases rule: PayInvoice_cases [of "NewZionLightningBridge lnd url" invoice s zionAddress])
       (auto simp: repo_defs)
  have signed:
    "is_insufficient (fst (PayInvoice (NewZionLightningBridge lnd url) invoice zionAddress s))
       = (case fst (DecodePayReq lnd invoice (world s)) of
            Inl err \<Rightarrow> False
          | Inr payReq \<Rightarrow>
              1000000 < sint (NumSatoshis payReq) \<or> sint (NumSatoshis payReq) < 0)"
    unfolding unsigned by (simp add: uint64_compare split: sum.splits)
  have address:
    "fst (PayInvoice (NewZionLightningBridge lnd url) invoice other s)
       = fst (PayInvoice (NewZionLightningBridge lnd url) invoice zionAddress s)"
    unfolding pay_defs repo_defs
    by (simp split: prod.splits sum.splits)
  show ?thesis
    using balance unsigned signed address by blast
qed

theorem rejection_above_million_or_negative_witness:
  "is_insufficient (fst (PayInvoice (the_bridge (lnd_paying 2000000)) ''lnbc20m1'' ''Z1'' s0))
   \<and> \<not> is_insufficient (fst (PayInvoice (the_bridge (lnd_paying 1000000)) ''lnbc10m1'' ''Z1'' s0))
   \<and> is_insufficient (fst (PayInvoice (the_bridge (lnd_paying (- 5))) ''lnbc1'' ''Z1'' s0))"
proof -
  note rejection = rejection_above_million_or_negative [THEN conjunct2, THEN conjunct1]
  show ?thesis
    unfolding the_bridge_def
    by (simp add: rejection lnd_paying_def s0_def)
qed

text \<open>
  C10: the ledger transfer of the repository returns no error, whatever its arguments. So
  on a bridge of the repository the branch of the pay operation for a failed deduction is
  never taken, its warning is never among the lines the pay operation logs, and whenever
  the Lightning payment succeeds the pay operation returns \<^verbatim>\<open>nil\<close>.
\<close>

theorem transfer_never_fails:
  "fst (ZionRPCClient_SendTransaction from to amount wl) = None
   \<and> (\<exists>new. logged (snd (PayInvoice (NewZionLightningBridge lnd url) invoice zionAddress s))
               = logged s @ new
             \<and> (\<forall>e. warning e \<notin> set new))
   \<and> (\<forall>f t a e. Call_SendTransaction f t a (Some e)
         \<notin> set (issued s
                  (snd (PayInvoice (NewZionLightningBridge lnd url) invoice zionAddress s))))
   \<and> (list_ex paid
         (issued s (snd (PayInvoice (NewZionLightningBridge lnd url) invoice zionAddress s)))
        \<longrightarrow> fst (PayInvoice (NewZionLightningBridge lnd url) invoice zionAddress s) = None)"
  by (cases rule: PayInvoice_cases [of "NewZionLightningBridge lnd url" invoice s zionAddress])
     (auto simp: issued_def repo_defs warning_def log_Printf_def bolt_def)

theorem transfer_never_fails_witness:
  "list_ex paid
     (issued s0 (snd (PayInvoice (the_bridge (lnd_paying 1000)) ''lnbc10u1'' ''Z1'' s0)))
   \<and> fst (PayInvoice (the_bridge (lnd_paying 1000)) ''lnbc10u1'' ''Z1'' s0) = None"
proof -
  note succeeds =
    transfer_never_fails [THEN conjunct2, THEN conjunct2, THEN conjunct2, THEN mp]
  have h: "list_ex paid
     (issued s0
        (snd (PayInvoice (NewZionLightningBridge (lnd_paying 1000) ''http://localhost:18089'')
                ''lnbc10u1'' ''Z1'' s0)))"
    by (simp add: pay_defs repo_defs example_defs uint64_of_def log_Printf_def issued_def)
  show ?thesis
    unfolding the_bridge_def using h succeeds [OF h] by simp
qed

end
